theory Spec2Isabelle
  imports Main "HOL-Library.Word"
begin

section \<open>Values shared by the codec core\<close>

text \<open>
  A number of the source is an IEEE 754 double. The embedding carries the finite
  integer-valued ones as \<open>int\<close> (negative ones included, since nothing in the source excludes
  them); fractional numbers, NaN and the infinities are outside it. An \<open>Offset\<close> is such a
  number used as a byte position.
\<close>

type_synonym Offset = int

text \<open>
  A \<open>Uint8Array\<close> is its sequence of bytes, and \<open>bytes.length\<close> is \<open>int (length bytes)\<close>.
\<close>

type_synonym Uint8Array = "8 word list"

text \<open>
  Everything that can be thrown. The first two constructors are \<open>SolanaError\<close>s, named by
  their code (without the common prefix \<open>SOLANA_ERROR__CODECS__\<close>) and carrying the fields
  of their context object in the order the source lists them:
  \<open>{codecDescription}\<close> and \<open>{bytesLength, codecDescription, expected}\<close>.
  \<open>RangeError\<close> and \<open>TypeError\<close> are the errors of the language itself, and \<open>Thrown\<close>
  is any other exception a caller-supplied function raises.
\<close>

datatype error =
    CANNOT_DECODE_EMPTY_BYTE_ARRAY string
  | INVALID_BYTE_LENGTH int string int
  | RangeError
  | TypeError
  | Thrown string

section \<open>Subtraction of numbers\<close>

text \<open>
  A double keeps 53 significant bits. \<open>dropped_bits n\<close> is the number of low bits of \<open>n\<close> that
  do not fit, and \<open>nearest_double x\<close> is the double nearest to the integer \<open>x\<close>, the even one
  of the two when \<open>x\<close> lies half way. The difference \<open>a - b\<close> of two numbers, as the source
  computes it, is the exact difference rounded in this way. (A length minus a finite offset
  never leaves the range of the finite doubles.)
\<close>

fun dropped_bits :: "nat \<Rightarrow> nat" where
  "dropped_bits n = (if n < 2 ^ 53 then 0 else Suc (dropped_bits (n div 2)))"

declare dropped_bits.simps [simp del]

definition nearest_double :: "int \<Rightarrow> int" where
  "nearest_double x =
     (let n = nat \<bar>x\<bar>;
          e = dropped_bits n;
          q = n div 2 ^ e;
          r = n mod 2 ^ e
      in sgn x *
         int ((if 2 ^ e < 2 * r \<or> (2 * r = 2 ^ e \<and> odd q) then q + 1 else q) * 2 ^ e))"

definition number_sub :: "int \<Rightarrow> int \<Rightarrow> int" where
  "number_sub a b = nearest_double (a - b)"

section \<open>Bounds guards\<close>

text \<open>
  Both guards take \<open>offset = 0\<close> as a default parameter: an omitted argument is \<open>None\<close>.
  They only read \<open>bytes.length\<close>; a normal return is \<open>Inr ()\<close>.
\<close>

definition assertByteArrayIsNotEmptyForCodec ::
  "string \<Rightarrow> Uint8Array \<Rightarrow> Offset option \<Rightarrow> error + unit" where
  "assertByteArrayIsNotEmptyForCodec codecDescription bytes offset =
     (let offset = (case offset of None \<Rightarrow> 0 | Some off \<Rightarrow> off) in
      if number_sub (int (length bytes)) offset \<le> 0
      then Inl (CANNOT_DECODE_EMPTY_BYTE_ARRAY codecDescription)
      else Inr ())"

definition assertByteArrayHasEnoughBytesForCodec ::
  "string \<Rightarrow> int \<Rightarrow> Uint8Array \<Rightarrow> Offset option \<Rightarrow> error + unit" where
  "assertByteArrayHasEnoughBytesForCodec codecDescription expected bytes offset =
     (let offset = (case offset of None \<Rightarrow> 0 | Some off \<Rightarrow> off);
          bytesLength = number_sub (int (length bytes)) offset in
      if bytesLength < expected
      then Inl (INVALID_BYTE_LENGTH bytesLength codecDescription expected)
      else Inr ())"

section \<open>Typed arrays\<close>

text \<open>
  \<open>new Uint8Array(length)\<close> on an integer: a fresh buffer of that many zero bytes, or a
  \<open>RangeError\<close> when the length is negative or above \<open>2^53 - 1\<close>, or when the engine cannot
  provide the memory. \<open>allocates len\<close> says whether the engine can.
\<close>

definition new_Uint8Array :: "(int \<Rightarrow> bool) \<Rightarrow> int \<Rightarrow> error + Uint8Array" where
  "new_Uint8Array allocates len =
     (if 0 \<le> len \<and> len \<le> 2 ^ 53 - 1 \<and> allocates len
      then Inr (replicate (nat len) 0)
      else Inl RangeError)"

text \<open>
  What a function can do to a \<open>Uint8Array\<close> it is handed. It can store elements,
  \<open>bytes[i] = b\<close>; a store outside the array is ignored. It can also detach the underlying
  buffer (by transferring it), after which the array has length 0 and ignores every store.
  The buffer of \<open>new Uint8Array(length)\<close> cannot be resized, so nothing else changes the
  length.
\<close>

datatype effect = Store int "8 word" | Detach

definition apply_effect :: "Uint8Array \<Rightarrow> effect \<Rightarrow> Uint8Array" where
  "apply_effect bytes eff =
     (case eff of
        Store i b \<Rightarrow> if 0 \<le> i \<and> i < int (length bytes) then bytes[nat i := b] else bytes
      | Detach \<Rightarrow> [])"

definition apply_effects :: "effect list \<Rightarrow> Uint8Array \<Rightarrow> Uint8Array" where
  "apply_effects effects bytes = foldl apply_effect bytes effects"

section \<open>Frozen objects\<close>

text \<open>
  An object is its properties and whether it has been frozen. \<open>Object.freeze\<close> marks the
  object literal it is given as frozen and returns it. \<open>alter\<close> is an attempt to change the
  properties of an object from outside, \<open>upd\<close> being the change attempted: on a frozen object
  it changes nothing. \<open>raising\<close> says whether a refused attempt raises a \<open>TypeError\<close>: an
  assignment and a \<open>delete\<close> in strict code do, and so does \<open>Object.defineProperty\<close> in any
  code; an assignment and a \<open>delete\<close> in other code, and the functions of \<open>Reflect\<close>, do not.
\<close>

datatype 'o JSObject = JSObject (props: 'o) (frozen: bool)

definition Object_freeze :: "'o \<Rightarrow> 'o JSObject" where
  "Object_freeze obj = JSObject obj True"

definition alter :: "bool \<Rightarrow> ('o \<Rightarrow> 'o) \<Rightarrow> 'o JSObject \<Rightarrow> (error + unit) \<times> 'o JSObject" where
  "alter raising upd obj =
     (if frozen obj then (if raising then Inl TypeError else Inr (), obj)
      else (Inr (), JSObject (upd (props obj)) False))"

section \<open>Encoders, decoders and codecs\<close>

text \<open>
  The object types of the source, as records that extend one another the way the
  intersection types do. \<open>fixedSize\<close> is \<open>None\<close> for \<open>null\<close>; \<open>maxSize\<close> and \<open>variableSize\<close>
  are \<open>None\<close> when the property is absent or undefined.

  The functions a codec author supplies may raise. \<open>write\<close> returns the effects it has on
  the buffer it is handed, in order, with the next offset; \<open>read\<close> returns the value and the
  next offset. \<open>createEncoder\<close> and \<open>createCodec\<close> allocate, so they are read in an engine,
  given by its \<open>allocates\<close>.
\<close>

record DecoderSize =
  fixedSize :: "int option"
  maxSize :: "int option"

record 'a EncoderSize = DecoderSize +
  variableSize :: "('a \<Rightarrow> error + int) option"

record 'a EncoderInput = "'a EncoderSize" +
  "write" :: "'a \<Rightarrow> Uint8Array \<Rightarrow> Offset \<Rightarrow> error + (effect list \<times> Offset)"

record 'a Encoder = "'a EncoderInput" +
  encode :: "'a \<Rightarrow> error + Uint8Array"

record 't DecoderInput = DecoderSize +
  read :: "Uint8Array \<Rightarrow> Offset \<Rightarrow> error + ('t \<times> Offset)"

record 't Decoder = "'t DecoderInput" +
  decode :: "Uint8Array \<Rightarrow> Offset option \<Rightarrow> error + 't"

record ('f, 't) CodecInput = "'f EncoderInput" +
  read :: "Uint8Array \<Rightarrow> Offset \<Rightarrow> error + ('t \<times> Offset)"

record ('f, 't) Codec = "('f, 't) CodecInput" +
  decode :: "Uint8Array \<Rightarrow> Offset option \<Rightarrow> error + 't"
  encode :: "'f \<Rightarrow> error + Uint8Array"

text \<open>
  \<open>getEncodedSize\<close> accepts any object with the size fields. Calling an absent
  \<open>variableSize\<close> is a \<open>TypeError\<close>.
\<close>

definition getEncodedSize :: "'a \<Rightarrow> ('a, 'm) EncoderSize_scheme \<Rightarrow> error + int" where
  "getEncodedSize value encoder =
     (case fixedSize encoder of
        Some n \<Rightarrow> Inr n
      | None \<Rightarrow> (case variableSize encoder of
                  Some f \<Rightarrow> f value
                | None \<Rightarrow> Inl TypeError))"

definition createEncoder :: "(int \<Rightarrow> bool) \<Rightarrow> 'a EncoderInput \<Rightarrow> 'a Encoder JSObject" where
  "createEncoder allocates encoder =
     Object_freeze
       (let size = (case fixedSize encoder of
                      None \<Rightarrow> \<lparr>fixedSize = None, maxSize = maxSize encoder,
                               variableSize = variableSize encoder\<rparr>
                    | Some n \<Rightarrow> \<lparr>fixedSize = Some n, maxSize = None, variableSize = None\<rparr>)
        in \<lparr>fixedSize = fixedSize size, maxSize = maxSize size,
            variableSize = variableSize size,
            write = write encoder,
            Encoder.encode = (\<lambda>value.
              case getEncodedSize value encoder of
                Inl e \<Rightarrow> Inl e
              | Inr n \<Rightarrow>
                  (case new_Uint8Array allocates n of
                     Inl e \<Rightarrow> Inl e
                   | Inr bytes \<Rightarrow>
                       (case write encoder value bytes 0 of
                          Inl e \<Rightarrow> Inl e
                        | Inr (effects, nextOffset) \<Rightarrow> Inr (apply_effects effects bytes))))\<rparr>)"

definition createDecoder :: "'t DecoderInput \<Rightarrow> 't Decoder JSObject" where
  "createDecoder decoder =
     Object_freeze
       (let size = (case fixedSize decoder of
                      None \<Rightarrow> \<lparr>fixedSize = None, maxSize = maxSize decoder\<rparr>
                    | Some n \<Rightarrow> \<lparr>fixedSize = Some n, maxSize = None\<rparr>)
        in \<lparr>fixedSize = fixedSize size, maxSize = maxSize size,
            DecoderInput.read = DecoderInput.read decoder,
            Decoder.decode = (\<lambda>bytes offset.
              case DecoderInput.read decoder bytes (case offset of None \<Rightarrow> 0 | Some off \<Rightarrow> off) of
                Inl e \<Rightarrow> Inl e
              | Inr (value, nextOffset) \<Rightarrow> Inr value)\<rparr>)"

definition createCodec ::
  "(int \<Rightarrow> bool) \<Rightarrow> ('f, 't) CodecInput \<Rightarrow> ('f, 't) Codec JSObject" where
  "createCodec allocates codec =
     Object_freeze
       (let size = (case fixedSize codec of
                      None \<Rightarrow> \<lparr>fixedSize = None, maxSize = maxSize codec,
                               variableSize = variableSize codec\<rparr>
                    | Some n \<Rightarrow> \<lparr>fixedSize = Some n, maxSize = None, variableSize = None\<rparr>)
        in \<lparr>fixedSize = fixedSize size, maxSize = maxSize size,
            variableSize = variableSize size,
            write = write codec,
            CodecInput.read = CodecInput.read codec,
            Codec.decode = (\<lambda>bytes offset.
              case CodecInput.read codec bytes (case offset of None \<Rightarrow> 0 | Some off \<Rightarrow> off) of
                Inl e \<Rightarrow> Inl e
              | Inr (value, nextOffset) \<Rightarrow> Inr value),
            Codec.encode = (\<lambda>value.
              case getEncodedSize value codec of
                Inl e \<Rightarrow> Inl e
              | Inr n \<Rightarrow>
                  (case new_Uint8Array allocates n of
                     Inl e \<Rightarrow> Inl e
                   | Inr bytes \<Rightarrow>
                       (case write codec value bytes 0 of
                          Inl e \<Rightarrow> Inl e
                        | Inr (effects, nextOffset) \<Rightarrow> Inr (apply_effects effects bytes))))\<rparr>)"

section \<open>Concrete engines and codecs\<close>

text \<open>
  Instances used to run the factories on concrete inputs. The engine provides up to
  \<open>2^32 - 1\<close> bytes. The first codec writes a number as one byte (fixed size 1) and reads it
  back as a byte, checking the bounds with the guard; the second writes a byte string as it is
  (variable size: its length) and reads the rest of the buffer. The last two encoders write
  like these and then transfer the buffer away, which detaches it; the first of them declares
  the fixed size 4.
\<close>

definition engine :: "int \<Rightarrow> bool" where
  "engine len = (len \<le> 2 ^ 32 - 1)"

definition u8_write :: "int \<Rightarrow> Uint8Array \<Rightarrow> Offset \<Rightarrow> error + (effect list \<times> Offset)" where
  "u8_write value bytes offset = Inr ([Store offset (word_of_int value)], offset + 1)"

definition u8_read :: "Uint8Array \<Rightarrow> Offset \<Rightarrow> error + (8 word \<times> Offset)" where
  "u8_read bytes offset =
     (if offset < 0 then Inl RangeError
      else case assertByteArrayHasEnoughBytesForCodec ''u8'' 1 bytes (Some offset) of
             Inl e \<Rightarrow> Inl e
           | Inr _ \<Rightarrow> Inr (bytes ! nat offset, offset + 1))"

definition u8_encoder :: "int EncoderInput" where
  "u8_encoder = \<lparr>fixedSize = Some 1, maxSize = None, variableSize = None, write = u8_write\<rparr>"

definition u8_codec :: "(int, 8 word) CodecInput" where
  "u8_codec = \<lparr>fixedSize = Some 1, maxSize = None, variableSize = None,
               write = u8_write, CodecInput.read = u8_read\<rparr>"

fun stores_from :: "Offset \<Rightarrow> 8 word list \<Rightarrow> effect list" where
  "stores_from offset [] = []"
| "stores_from offset (b # bs) = Store offset b # stores_from (offset + 1) bs"

definition bytes_variableSize :: "8 word list \<Rightarrow> error + int" where
  "bytes_variableSize value = Inr (int (length value))"

definition bytes_write :: "8 word list \<Rightarrow> Uint8Array \<Rightarrow> Offset \<Rightarrow> error + (effect list \<times> Offset)" where
  "bytes_write value bytes offset = Inr (stores_from offset value, offset + int (length value))"

definition bytes_read :: "Uint8Array \<Rightarrow> Offset \<Rightarrow> error + (8 word list \<times> Offset)" where
  "bytes_read bytes offset =
     (if offset < 0 then Inl RangeError
      else Inr (drop (nat offset) bytes, max offset (int (length bytes))))"

definition bytes_encoder :: "8 word list EncoderInput" where
  "bytes_encoder = \<lparr>fixedSize = None, maxSize = None, variableSize = Some bytes_variableSize,
                     write = bytes_write\<rparr>"

definition bytes_codec :: "(8 word list, 8 word list) CodecInput" where
  "bytes_codec = \<lparr>fixedSize = None, maxSize = None, variableSize = Some bytes_variableSize,
                   write = bytes_write, CodecInput.read = bytes_read\<rparr>"

definition detaching_u8_write :: "int \<Rightarrow> Uint8Array \<Rightarrow> Offset \<Rightarrow> error + (effect list \<times> Offset)" where
  "detaching_u8_write value bytes offset =
     Inr ([Store offset (word_of_int value), Detach], offset + 1)"

definition detaching_fixed_encoder :: "int EncoderInput" where
  "detaching_fixed_encoder =
     \<lparr>fixedSize = Some 4, maxSize = None, variableSize = None, write = detaching_u8_write\<rparr>"

definition detaching_bytes_write ::
  "8 word list \<Rightarrow> Uint8Array \<Rightarrow> Offset \<Rightarrow> error + (effect list \<times> Offset)" where
  "detaching_bytes_write value bytes offset =
     Inr (stores_from offset value @ [Detach], offset + int (length value))"

definition detaching_bytes_encoder :: "8 word list EncoderInput" where
  "detaching_bytes_encoder =
     \<lparr>fixedSize = None, maxSize = None, variableSize = Some bytes_variableSize,
      write = detaching_bytes_write\<rparr>"

lemmas example_defs = engine_def u8_write_def u8_read_def u8_encoder_def u8_codec_def
  bytes_variableSize_def bytes_write_def bytes_read_def bytes_encoder_def bytes_codec_def
  detaching_u8_write_def detaching_fixed_encoder_def detaching_bytes_write_def
  detaching_bytes_encoder_def

section \<open>Rounding keeps small differences and signs\<close>

lemma dropped_bits_small: "n < 2 ^ 53 \<Longrightarrow> dropped_bits n = 0"
  by (simp add: dropped_bits.simps)

lemma dropped_bits_one: "2 ^ 53 \<le> n \<Longrightarrow> n < 2 ^ 54 \<Longrightarrow> dropped_bits n = 1"
proof -
  assume a: "2 ^ 53 \<le> n" and b: "n < 2 ^ 54"
  from b have "n div 2 < 2 ^ 53" by simp
  then have "dropped_bits (n div 2) = 0" by (rule dropped_bits_small)
  moreover from a have "dropped_bits n = Suc (dropped_bits (n div 2))"
    by (subst dropped_bits.simps) simp
  ultimately show ?thesis by simp
qed

lemma dropped_bits_le: "0 < n \<Longrightarrow> 2 ^ dropped_bits n \<le> n"
proof (induction n rule: dropped_bits.induct)
  case (1 n)
  show ?case
  proof (cases "n < 2 ^ 53")
    case True
    with "1.prems" show ?thesis by (simp add: dropped_bits_small)
  next
    case False
    then have "0 < n div 2" by simp
    with False "1.IH" have "2 ^ dropped_bits (n div 2) \<le> n div 2" by simp
    then have "2 * 2 ^ dropped_bits (n div 2) \<le> n" by simp
    moreover from False have "dropped_bits n = Suc (dropped_bits (n div 2))"
      by (subst dropped_bits.simps) simp
    ultimately show ?thesis by simp
  qed
qed

lemma nearest_double_exact: "\<bar>x\<bar> \<le> 2 ^ 53 \<Longrightarrow> nearest_double x = x"
proof (cases "\<bar>x\<bar> = 2 ^ 53")
  case True
  then have n: "nat \<bar>x\<bar> = 2 ^ 53" by simp
  have e: "dropped_bits (2 ^ 53) = 1" by (rule dropped_bits_one) simp_all
  have "nearest_double x = sgn x * 2 ^ 53"
    unfolding nearest_double_def n Let_def e by simp
  with True show ?thesis by (cases "x < 0") (simp_all add: sgn_if)
next
  case False
  assume "\<bar>x\<bar> \<le> 2 ^ 53"
  with False have "nat \<bar>x\<bar> < 2 ^ 53" by (simp add: nat_less_iff)
  then show ?thesis by (simp add: nearest_double_def Let_def dropped_bits_small sgn_if)
qed

lemma nearest_double_pos: "0 < x \<Longrightarrow> 0 < nearest_double x"
proof -
  assume x: "0 < x"
  define n where "n = nat \<bar>x\<bar>"
  define e where "e = dropped_bits n"
  from x have "0 < n" by (simp add: n_def)
  then have "2 ^ e \<le> n" unfolding e_def by (rule dropped_bits_le)
  then have q: "0 < n div 2 ^ e" by (simp add: div_greater_zero_iff)
  have "nearest_double x =
      sgn x * int ((if 2 ^ e < 2 * (n mod 2 ^ e) \<or> (2 * (n mod 2 ^ e) = 2 ^ e \<and> odd (n div 2 ^ e))
                    then n div 2 ^ e + 1 else n div 2 ^ e) * 2 ^ e)"
    unfolding nearest_double_def Let_def n_def [symmetric] e_def [symmetric] by simp
  with q x show ?thesis by (simp add: sgn_if)
qed

lemma nearest_double_minus: "nearest_double (- x) = - nearest_double x"
  by (simp add: nearest_double_def Let_def sgn_if)

lemma nearest_double_le_zero_iff: "nearest_double x \<le> 0 \<longleftrightarrow> x \<le> 0"
proof (cases "0 < x")
  case True
  then show ?thesis using nearest_double_pos [of x] by simp
next
  case False
  show ?thesis
  proof (cases "x = 0")
    case True
    then show ?thesis by (simp add: nearest_double_exact)
  next
    case nz: False
    with False have "0 < - x" by simp
    then have "0 < nearest_double (- x)" by (rule nearest_double_pos)
    with False show ?thesis by (simp add: nearest_double_minus)
  qed
qed

lemma number_sub_exact: "\<bar>a - b\<bar> \<le> 2 ^ 53 \<Longrightarrow> number_sub a b = a - b"
  by (simp add: number_sub_def nearest_double_exact)

lemma number_sub_le_zero_iff: "number_sub a b \<le> 0 \<longleftrightarrow> a - b \<le> 0"
  by (simp add: number_sub_def nearest_double_le_zero_iff)

lemma nearest_double_less_zero_iff: "nearest_double x < 0 \<longleftrightarrow> x < 0"
proof -
  have "nearest_double x < 0 \<longleftrightarrow> \<not> nearest_double (- x) \<le> 0"
    unfolding nearest_double_minus by linarith
  also have "\<dots> \<longleftrightarrow> \<not> - x \<le> 0"
    unfolding nearest_double_le_zero_iff ..
  also have "\<dots> \<longleftrightarrow> x < 0" by linarith
  finally show ?thesis .
qed

lemma number_sub_less_zero_iff: "number_sub a b < 0 \<longleftrightarrow> a - b < 0"
  by (simp add: number_sub_def nearest_double_less_zero_iff)

lemma nearest_double_rounds_up: "nearest_double (2 ^ 53 + 3) = 2 ^ 53 + 4"
proof -
  have n: "nat \<bar>2 ^ 53 + 3 :: int\<bar> = 9007199254740995" by simp
  have e: "dropped_bits 9007199254740995 = 1" by (rule dropped_bits_one) simp_all
  show ?thesis unfolding nearest_double_def n Let_def e by simp
qed

lemma nearest_double_rounds_to_even: "nearest_double (- (2 ^ 53) - 1) = - (2 ^ 53)"
proof -
  have n: "nat \<bar>- (2 ^ 53) - 1 :: int\<bar> = 9007199254740993" by simp
  have e: "dropped_bits 9007199254740993 = 1" by (rule dropped_bits_one) simp_all
  show ?thesis unfolding nearest_double_def n Let_def e by simp
qed

section \<open>Effects on a buffer; what the factories build\<close>

lemma length_apply_effect_Store: "length (apply_effect bytes (Store i b)) = length bytes"
  by (simp add: apply_effect_def)

lemma apply_effect_Detach: "apply_effect bytes Detach = []"
  by (simp add: apply_effect_def)

lemma length_foldl_apply_effect:
  "length (foldl apply_effect bytes effects)
     = (if Detach \<in> set effects then 0 else length bytes)"
proof (induction effects arbitrary: bytes)
  case Nil
  show ?case by simp
next
  case (Cons eff effects)
  show ?case
  proof (cases eff)
    case (Store i b)
    then show ?thesis by (simp add: Cons.IH length_apply_effect_Store)
  next
    case Detach
    then show ?thesis by (simp add: Cons.IH apply_effect_Detach)
  qed
qed

lemma length_apply_effects:
  "length (apply_effects effects bytes) = (if Detach \<in> set effects then 0 else length bytes)"
  by (simp only: apply_effects_def length_foldl_apply_effect)

lemma encode_createEncoder:
  "Encoder.encode (props (createEncoder allocates encoder)) v =
     (case getEncodedSize v encoder of
        Inl e \<Rightarrow> Inl e
      | Inr n \<Rightarrow>
          (case new_Uint8Array allocates n of
             Inl e \<Rightarrow> Inl e
           | Inr bytes \<Rightarrow>
               (case write encoder v bytes 0 of
                  Inl e \<Rightarrow> Inl e
                | Inr (effects, nextOffset) \<Rightarrow> Inr (apply_effects effects bytes))))"
  by (simp add: createEncoder_def Object_freeze_def Let_def)

lemma encode_createCodec:
  "Codec.encode (props (createCodec allocates codec)) v =
     (case getEncodedSize v codec of
        Inl e \<Rightarrow> Inl e
      | Inr n \<Rightarrow>
          (case new_Uint8Array allocates n of
             Inl e \<Rightarrow> Inl e
           | Inr bytes \<Rightarrow>
               (case write codec v bytes 0 of
                  Inl e \<Rightarrow> Inl e
                | Inr (effects, nextOffset) \<Rightarrow> Inr (apply_effects effects bytes))))"
  by (simp add: createCodec_def Object_freeze_def Let_def)

lemma decode_createDecoder:
  "Decoder.decode (props (createDecoder decoder)) bytes offset =
     (case DecoderInput.read decoder bytes (case offset of None \<Rightarrow> 0 | Some off \<Rightarrow> off) of
        Inl e \<Rightarrow> Inl e
      | Inr (v, nextOffset) \<Rightarrow> Inr v)"
  by (simp add: createDecoder_def Object_freeze_def Let_def)

lemma decode_createCodec:
  "Codec.decode (props (createCodec allocates codec)) bytes offset =
     (case CodecInput.read codec bytes (case offset of None \<Rightarrow> 0 | Some off \<Rightarrow> off) of
        Inl e \<Rightarrow> Inl e
      | Inr (v, nextOffset) \<Rightarrow> Inr v)"
  by (simp add: createCodec_def Object_freeze_def Let_def)

lemma encode_Inr_iff:
  "(case sz of
        Inl e \<Rightarrow> Inl e
      | Inr n \<Rightarrow>
          (case new_Uint8Array allocates n of
             Inl e \<Rightarrow> Inl e
           | Inr bytes \<Rightarrow>
               (case w bytes of
                  Inl e \<Rightarrow> Inl e
                | Inr (effects, nextOffset) \<Rightarrow> Inr (apply_effects effects bytes)))) = Inr result
   \<longleftrightarrow> (\<exists>n effects nextOffset. sz = Inr n \<and> 0 \<le> n \<and> n \<le> 2 ^ 53 - 1 \<and> allocates n
          \<and> w (replicate (nat n) 0) = Inr (effects, nextOffset)
          \<and> result = apply_effects effects (replicate (nat n) 0))"
  by (auto simp add: new_Uint8Array_def split: sum.splits if_splits)

lemma encode_isl_iff:
  "isl (case new_Uint8Array allocates n of
          Inl e \<Rightarrow> Inl e
        | Inr bytes \<Rightarrow>
            (case w bytes of
               Inl e \<Rightarrow> Inl e
             | Inr (effects, nextOffset) \<Rightarrow> Inr (apply_effects effects bytes)))
   = (n < 0 \<or> 2 ^ 53 - 1 < n \<or> \<not> allocates n \<or> isl (w (replicate (nat n) 0)))"
  by (auto simp add: new_Uint8Array_def split: sum.splits)

lemma frozen_fold_alter:
  "frozen obj \<Longrightarrow> fold (\<lambda>upd obj. snd (alter raising upd obj)) upds obj = obj"
  by (induction upds) (simp_all add: alter_def)

lemma frozen_createEncoder: "frozen (createEncoder allocates encoder)"
  by (simp add: createEncoder_def Object_freeze_def)

lemma frozen_createDecoder: "frozen (createDecoder decoder)"
  by (simp add: createDecoder_def Object_freeze_def)

lemma frozen_createCodec: "frozen (createCodec allocates codec)"
  by (simp add: createCodec_def Object_freeze_def)

section \<open>Properties of the bounds guards\<close>

text \<open>
  C4. \<open>assertByteArrayHasEnoughBytesForCodec\<close> computes the available length
  \<open>bytes.length - offset\<close> (offset 0 when omitted) as numbers are subtracted, and raises
  exactly when the computed length is below the expected length; the error raised is the
  invalid-byte-length error carrying the description, the expected length and the computed
  available length. Whenever the exact difference is at most \<open>2^53\<close> in absolute value (as
  it is for every offset from 0 to \<open>2^53\<close>) the computed length is the exact difference. On any
  buffer of length 5 with expected length 4 the guard raises at offset 2 (available 3) and
  returns at offset 1.
\<close>

theorem assertByteArrayHasEnoughBytesForCodec_computed:
  "assertByteArrayHasEnoughBytesForCodec d e bytes offset
     = (if number_sub (int (length bytes)) (case offset of None \<Rightarrow> 0 | Some off \<Rightarrow> off) < e
        then Inl (INVALID_BYTE_LENGTH
               (number_sub (int (length bytes)) (case offset of None \<Rightarrow> 0 | Some off \<Rightarrow> off)) d e)
        else Inr ())
   \<and> (\<bar>int (length bytes) - (case offset of None \<Rightarrow> 0 | Some off \<Rightarrow> off)\<bar> \<le> 2 ^ 53 \<longrightarrow>
        isl (assertByteArrayHasEnoughBytesForCodec d e bytes offset)
          = (int (length bytes) - (case offset of None \<Rightarrow> 0 | Some off \<Rightarrow> off) < e)
        \<and> assertByteArrayHasEnoughBytesForCodec d e bytes offset
          = (if int (length bytes) - (case offset of None \<Rightarrow> 0 | Some off \<Rightarrow> off) < e
             then Inl (INVALID_BYTE_LENGTH
                    (int (length bytes) - (case offset of None \<Rightarrow> 0 | Some off \<Rightarrow> off)) d e)
             else Inr ()))
   \<and> assertByteArrayHasEnoughBytesForCodec d 4 [b0, b1, b2, b3, b4] (Some 2)
     = Inl (INVALID_BYTE_LENGTH 3 d 4)
   \<and> assertByteArrayHasEnoughBytesForCodec d 4 [b0, b1, b2, b3, b4] (Some 1) = Inr ()"
  by (simp add: assertByteArrayHasEnoughBytesForCodec_def Let_def number_sub_exact)

theorem assertByteArrayHasEnoughBytesForCodec_computed_witness:
  "\<bar>int (length [1, 2, 3 :: 8 word]) - 0\<bar> \<le> 2 ^ 53
   \<and> assertByteArrayHasEnoughBytesForCodec ''x'' 4 [1, 2, 3] None
     = Inl (INVALID_BYTE_LENGTH 3 ''x'' 4)
   \<and> isl (assertByteArrayHasEnoughBytesForCodec ''x'' 4 [1, 2, 3] None)"
  using assertByteArrayHasEnoughBytesForCodec_computed [of "''x''" 4 "[1, 2, 3]" None]
  by (simp add: number_sub_exact)

text \<open>
  At length 3, offset \<open>- 2^53\<close> and expected length \<open>2^53 + 4\<close> the exact difference
  \<open>2^53 + 3\<close> is below the expected length, and the guard returns: the difference it
  computes is \<open>2^53 + 4\<close>. At length 1, offset \<open>2^53 + 2\<close> and expected length 0 the guard
  raises, and the length the error carries is \<open>- 2^53\<close>, not the exact difference.
\<close>

theorem assertByteArrayHasEnoughBytesForCodec_exact_counterexample:
  "int (length [1, 2, 3 :: 8 word]) - (- (2 ^ 53)) < 2 ^ 53 + 4
   \<and> assertByteArrayHasEnoughBytesForCodec ''x'' (2 ^ 53 + 4) [1, 2, 3] (Some (- (2 ^ 53)))
     = Inr ()
   \<and> assertByteArrayHasEnoughBytesForCodec ''x'' 0 [1] (Some (2 ^ 53 + 2))
     = Inl (INVALID_BYTE_LENGTH (- (2 ^ 53)) ''x'' 0)
   \<and> int (length [1 :: 8 word]) - (2 ^ 53 + 2) \<noteq> - (2 ^ 53)"
proof -
  have "number_sub (int (length [1, 2, 3 :: 8 word])) (- (2 ^ 53)) = 2 ^ 53 + 4"
    using nearest_double_rounds_up by (simp add: number_sub_def)
  moreover have "number_sub (int (length [1 :: 8 word])) (2 ^ 53 + 2) = - (2 ^ 53)"
    using nearest_double_rounds_to_even by (simp add: number_sub_def)
  ultimately show ?thesis
    by (simp add: assertByteArrayHasEnoughBytesForCodec_def Let_def)
qed

text \<open>
  C5. \<open>assertByteArrayIsNotEmptyForCodec\<close> raises exactly when
  \<open>bytes.length - offset \<le> 0\<close> (offset 0 when omitted), and the error is the empty-byte-array
  error carrying the description. It raises on the empty buffer with the offset omitted or 0,
  and on a non-empty buffer at the offset equal to its length; otherwise it returns normally.
  The guard reads only the length of the buffer and performs no store, so the buffer is the
  same after the call: the embedding has no buffer to return.
\<close>

theorem assertByteArrayIsNotEmptyForCodec_spec:
  "isl (assertByteArrayIsNotEmptyForCodec d bytes offset)
     = (int (length bytes) - (case offset of None \<Rightarrow> 0 | Some off \<Rightarrow> off) \<le> 0)
   \<and> assertByteArrayIsNotEmptyForCodec d bytes offset
     = (if int (length bytes) - (case offset of None \<Rightarrow> 0 | Some off \<Rightarrow> off) \<le> 0
        then Inl (CANNOT_DECODE_EMPTY_BYTE_ARRAY d) else Inr ())
   \<and> assertByteArrayIsNotEmptyForCodec d [] None = Inl (CANNOT_DECODE_EMPTY_BYTE_ARRAY d)
   \<and> assertByteArrayIsNotEmptyForCodec d [] (Some 0) = Inl (CANNOT_DECODE_EMPTY_BYTE_ARRAY d)
   \<and> assertByteArrayIsNotEmptyForCodec d (b # bs) (Some (int (length (b # bs))))
     = Inl (CANNOT_DECODE_EMPTY_BYTE_ARRAY d)"
  by (simp add: assertByteArrayIsNotEmptyForCodec_def Let_def number_sub_le_zero_iff)

text \<open>
  C9. With expected length 0, \<open>assertByteArrayHasEnoughBytesForCodec\<close> returns normally
  whenever the offset (0 when omitted) is at most the length of the buffer. This includes the
  empty buffer at offset 0, where \<open>assertByteArrayIsNotEmptyForCodec\<close> raises.
\<close>

theorem assertByteArrayHasEnoughBytesForCodec_expected_zero:
  "((case offset of None \<Rightarrow> 0 | Some off \<Rightarrow> off) \<le> int (length bytes)
      \<longrightarrow> assertByteArrayHasEnoughBytesForCodec d 0 bytes offset = Inr ())
   \<and> assertByteArrayHasEnoughBytesForCodec d 0 [] None = Inr ()
   \<and> assertByteArrayHasEnoughBytesForCodec d 0 [] (Some 0) = Inr ()
   \<and> assertByteArrayIsNotEmptyForCodec d [] None = Inl (CANNOT_DECODE_EMPTY_BYTE_ARRAY d)
   \<and> assertByteArrayIsNotEmptyForCodec d [] (Some 0) = Inl (CANNOT_DECODE_EMPTY_BYTE_ARRAY d)"
  by (simp add: assertByteArrayHasEnoughBytesForCodec_def
      assertByteArrayIsNotEmptyForCodec_def Let_def number_sub_less_zero_iff
      number_sub_le_zero_iff)

theorem assertByteArrayHasEnoughBytesForCodec_expected_zero_witness:
  "(2::int) \<le> int (length [1, 2, 3 :: 8 word])
   \<and> assertByteArrayHasEnoughBytesForCodec ''u8'' 0 [1, 2, 3] (Some 2) = Inr ()"
  using assertByteArrayHasEnoughBytesForCodec_expected_zero
    [of "Some 2" "[1, 2, 3]" "''u8''"]
  by simp

text \<open>
  C10. For every description, buffer and integer offset (omitted, inside the buffer, past its
  end or negative), \<open>assertByteArrayIsNotEmptyForCodec\<close> raises exactly when
  \<open>assertByteArrayHasEnoughBytesForCodec\<close> with expected length 1 raises.
\<close>

theorem assertByteArrayIsNotEmptyForCodec_iff_expected_one:
  "isl (assertByteArrayIsNotEmptyForCodec d bytes offset)
     = isl (assertByteArrayHasEnoughBytesForCodec d 1 bytes offset)"
  by (auto simp add: assertByteArrayHasEnoughBytesForCodec_def
      assertByteArrayIsNotEmptyForCodec_def Let_def)

section \<open>Properties of the factories\<close>

text \<open>
  C2. When the size descriptor handed to \<open>createEncoder\<close> or \<open>createCodec\<close> has
  \<open>fixedSize = n\<close>, a byte array that \<open>encode\<close> returns has length exactly \<open>n\<close> when \<open>write\<close>
  leaves the buffer attached, whatever the value and whatever else \<open>write\<close> does, and length
  0 when \<open>write\<close> detaches it. \<open>encode\<close> returns unless \<open>n\<close> is not a length a typed array can
  have, the engine cannot allocate it, or \<open>write\<close> raises on the fresh buffer.
\<close>

theorem encode_fixedSize_length_attached:
  assumes "fixedSize encoder = Some n" and "fixedSize codec = Some n"
  shows "(\<forall>bytes. Encoder.encode (props (createEncoder allocates encoder)) v = Inr bytes \<longrightarrow>
            (\<exists>effects nextOffset.
               write encoder v (replicate (nat n) 0) 0 = Inr (effects, nextOffset)
               \<and> int (length bytes) = (if Detach \<in> set effects then 0 else n)))
       \<and> (\<forall>bytes. Codec.encode (props (createCodec allocates codec)) v' = Inr bytes \<longrightarrow>
            (\<exists>effects nextOffset.
               write codec v' (replicate (nat n) 0) 0 = Inr (effects, nextOffset)
               \<and> int (length bytes) = (if Detach \<in> set effects then 0 else n)))
       \<and> isl (Encoder.encode (props (createEncoder allocates encoder)) v)
           = (n < 0 \<or> 2 ^ 53 - 1 < n \<or> \<not> allocates n
              \<or> isl (write encoder v (replicate (nat n) 0) 0))
       \<and> isl (Codec.encode (props (createCodec allocates codec)) v')
           = (n < 0 \<or> 2 ^ 53 - 1 < n \<or> \<not> allocates n
              \<or> isl (write codec v' (replicate (nat n) 0) 0))"
proof -
  have sz: "getEncodedSize v encoder = Inr n" "getEncodedSize v' codec = Inr n"
    using assms by (simp_all add: getEncodedSize_def)
  have len: "\<exists>effects nextOffset.
               write encoder v (replicate (nat n) 0) 0 = Inr (effects, nextOffset)
               \<and> int (length bytes) = (if Detach \<in> set effects then 0 else n)"
    if "Encoder.encode (props (createEncoder allocates encoder)) v = Inr bytes" for bytes
  proof -
    from that obtain effects nextOffset where "0 \<le> n"
      and w: "write encoder v (replicate (nat n) 0) 0 = Inr (effects, nextOffset)"
      and b: "bytes = apply_effects effects (replicate (nat n) 0)"
      unfolding encode_createEncoder encode_Inr_iff sz by blast
    from b \<open>0 \<le> n\<close> have "int (length bytes) = (if Detach \<in> set effects then 0 else n)"
      by (simp add: length_apply_effects)
    with w show ?thesis by blast
  qed
  have len': "\<exists>effects nextOffset.
               write codec v' (replicate (nat n) 0) 0 = Inr (effects, nextOffset)
               \<and> int (length bytes) = (if Detach \<in> set effects then 0 else n)"
    if "Codec.encode (props (createCodec allocates codec)) v' = Inr bytes" for bytes
  proof -
    from that obtain effects nextOffset where "0 \<le> n"
      and w: "write codec v' (replicate (nat n) 0) 0 = Inr (effects, nextOffset)"
      and b: "bytes = apply_effects effects (replicate (nat n) 0)"
      unfolding encode_createCodec encode_Inr_iff sz by blast
    from b \<open>0 \<le> n\<close> have "int (length bytes) = (if Detach \<in> set effects then 0 else n)"
      by (simp add: length_apply_effects)
    with w show ?thesis by blast
  qed
  have r: "isl (Encoder.encode (props (createEncoder allocates encoder)) v)
           = (n < 0 \<or> 2 ^ 53 - 1 < n \<or> \<not> allocates n
              \<or> isl (write encoder v (replicate (nat n) 0) 0))"
    unfolding encode_createEncoder sz by (simp only: sum.case encode_isl_iff)
  have r': "isl (Codec.encode (props (createCodec allocates codec)) v')
           = (n < 0 \<or> 2 ^ 53 - 1 < n \<or> \<not> allocates n
              \<or> isl (write codec v' (replicate (nat n) 0) 0))"
    unfolding encode_createCodec sz by (simp only: sum.case encode_isl_iff)
  from len len' r r' show ?thesis by blast
qed

theorem encode_fixedSize_length_attached_witness:
  "fixedSize u8_encoder = Some 1 \<and> fixedSize u8_codec = Some 1
   \<and> Encoder.encode (props (createEncoder engine u8_encoder)) 7 = Inr [7]
   \<and> Codec.encode (props (createCodec engine u8_codec)) 300 = Inr [44]
   \<and> write u8_encoder 7 (replicate (nat 1) 0) 0 = Inr ([Store 0 7], 1)
   \<and> Detach \<notin> set [Store 0 7]
   \<and> int (length [7 :: 8 word]) = 1"
  using encode_fixedSize_length_attached [of u8_encoder 1 u8_codec engine 7 300]
  by (simp add: example_defs encode_createEncoder encode_createCodec getEncodedSize_def
      new_Uint8Array_def apply_effects_def apply_effect_def)

text \<open>
  An encoder with \<open>fixedSize = 4\<close> whose \<open>write\<close> detaches the buffer: \<open>encode\<close> returns an
  array of length 0.
\<close>

theorem encode_fixedSize_length_counterexample:
  "fixedSize detaching_fixed_encoder = Some 4
   \<and> Encoder.encode (props (createEncoder engine detaching_fixed_encoder)) 7 = Inr []
   \<and> int (length ([] :: Uint8Array)) \<noteq> 4"
  by (simp add: example_defs encode_createEncoder getEncodedSize_def
      new_Uint8Array_def apply_effects_def apply_effect_def)

text \<open>
  C3. When the size descriptor has \<open>fixedSize = null\<close> and the size function \<open>variableSize\<close>,
  a byte array returned by \<open>encode\<close> on \<open>v\<close> is the zero-initialised buffer of length
  \<open>variableSize(v)\<close> after the effects of \<open>write(v, buffer, 0)\<close>: its length is
  \<open>variableSize(v)\<close> when \<open>write\<close> leaves the buffer attached and 0 when \<open>write\<close> detaches it.
  \<open>encode\<close> does return it whenever \<open>variableSize(v)\<close> is a length a typed array can have,
  the engine allocates it and \<open>write\<close> returns. The same holds for \<open>createCodec\<close>.
\<close>

theorem encode_variableSize_attached:
  assumes "fixedSize encoder = None" and "variableSize encoder = Some size_of"
    and "fixedSize codec = None" and "variableSize codec = Some size_of'"
  shows "(\<forall>bytes. Encoder.encode (props (createEncoder allocates encoder)) v = Inr bytes \<longrightarrow>
            (\<exists>n effects nextOffset.
               size_of v = Inr n \<and> 0 \<le> n
               \<and> write encoder v (replicate (nat n) 0) 0 = Inr (effects, nextOffset)
               \<and> bytes = apply_effects effects (replicate (nat n) 0)
               \<and> int (length bytes) = (if Detach \<in> set effects then 0 else n)))
       \<and> (\<forall>n effects nextOffset.
            size_of v = Inr n \<and> 0 \<le> n \<and> n \<le> 2 ^ 53 - 1 \<and> allocates n
            \<and> write encoder v (replicate (nat n) 0) 0 = Inr (effects, nextOffset) \<longrightarrow>
            Encoder.encode (props (createEncoder allocates encoder)) v
              = Inr (apply_effects effects (replicate (nat n) 0)))
       \<and> (\<forall>bytes. Codec.encode (props (createCodec allocates codec)) v' = Inr bytes \<longrightarrow>
            (\<exists>n effects nextOffset.
               size_of' v' = Inr n \<and> 0 \<le> n
               \<and> write codec v' (replicate (nat n) 0) 0 = Inr (effects, nextOffset)
               \<and> bytes = apply_effects effects (replicate (nat n) 0)
               \<and> int (length bytes) = (if Detach \<in> set effects then 0 else n)))
       \<and> (\<forall>n effects nextOffset.
            size_of' v' = Inr n \<and> 0 \<le> n \<and> n \<le> 2 ^ 53 - 1 \<and> allocates n
            \<and> write codec v' (replicate (nat n) 0) 0 = Inr (effects, nextOffset) \<longrightarrow>
            Codec.encode (props (createCodec allocates codec)) v'
              = Inr (apply_effects effects (replicate (nat n) 0)))"
proof -
  have sz: "getEncodedSize v encoder = size_of v" "getEncodedSize v' codec = size_of' v'"
    using assms by (simp_all add: getEncodedSize_def)
  have a: "\<exists>n effects nextOffset.
               size_of v = Inr n \<and> 0 \<le> n
               \<and> write encoder v (replicate (nat n) 0) 0 = Inr (effects, nextOffset)
               \<and> bytes = apply_effects effects (replicate (nat n) 0)
               \<and> int (length bytes) = (if Detach \<in> set effects then 0 else n)"
    if "Encoder.encode (props (createEncoder allocates encoder)) v = Inr bytes" for bytes
  proof -
    from that obtain n effects nextOffset where
      n: "size_of v = Inr n" "0 \<le> n"
      and w: "write encoder v (replicate (nat n) 0) 0 = Inr (effects, nextOffset)"
      and b: "bytes = apply_effects effects (replicate (nat n) 0)"
      unfolding encode_createEncoder encode_Inr_iff sz by blast
    from b n have "int (length bytes) = (if Detach \<in> set effects then 0 else n)"
      by (simp add: length_apply_effects)
    with n w b show ?thesis by blast
  qed
  have b: "Encoder.encode (props (createEncoder allocates encoder)) v
              = Inr (apply_effects effects (replicate (nat n) 0))"
    if "size_of v = Inr n" "0 \<le> n" "n \<le> 2 ^ 53 - 1" "allocates n"
      "write encoder v (replicate (nat n) 0) 0 = Inr (effects, nextOffset)"
    for n effects nextOffset
    using that unfolding encode_createEncoder encode_Inr_iff sz by blast
  have a': "\<exists>n effects nextOffset.
               size_of' v' = Inr n \<and> 0 \<le> n
               \<and> write codec v' (replicate (nat n) 0) 0 = Inr (effects, nextOffset)
               \<and> bytes = apply_effects effects (replicate (nat n) 0)
               \<and> int (length bytes) = (if Detach \<in> set effects then 0 else n)"
    if "Codec.encode (props (createCodec allocates codec)) v' = Inr bytes" for bytes
  proof -
    from that obtain n effects nextOffset where
      n: "size_of' v' = Inr n" "0 \<le> n"
      and w: "write codec v' (replicate (nat n) 0) 0 = Inr (effects, nextOffset)"
      and b: "bytes = apply_effects effects (replicate (nat n) 0)"
      unfolding encode_createCodec encode_Inr_iff sz by blast
    from b n have "int (length bytes) = (if Detach \<in> set effects then 0 else n)"
      by (simp add: length_apply_effects)
    with n w b show ?thesis by blast
  qed
  have b': "Codec.encode (props (createCodec allocates codec)) v'
              = Inr (apply_effects effects (replicate (nat n) 0))"
    if "size_of' v' = Inr n" "0 \<le> n" "n \<le> 2 ^ 53 - 1" "allocates n"
      "write codec v' (replicate (nat n) 0) 0 = Inr (effects, nextOffset)"
    for n effects nextOffset
    using that unfolding encode_createCodec encode_Inr_iff sz by blast
  from a b a' b' show ?thesis by blast
qed

theorem encode_variableSize_attached_witness:
  "fixedSize bytes_encoder = None \<and> variableSize bytes_encoder = Some bytes_variableSize
   \<and> fixedSize bytes_codec = None \<and> variableSize bytes_codec = Some bytes_variableSize
   \<and> Encoder.encode (props (createEncoder engine bytes_encoder)) [1, 2, 3] = Inr [1, 2, 3]
   \<and> Codec.encode (props (createCodec engine bytes_codec)) [4, 5] = Inr [4, 5]
   \<and> bytes_variableSize [1, 2, 3] = Inr (int (length [1, 2, 3 :: 8 word]))
   \<and> bytes_variableSize [4, 5] = Inr (int (length [4, 5 :: 8 word]))"
  using encode_variableSize_attached
    [of bytes_encoder bytes_variableSize bytes_codec bytes_variableSize engine
      "[1, 2, 3]" "[4, 5]"]
  by (simp add: example_defs encode_createEncoder encode_createCodec getEncodedSize_def
      new_Uint8Array_def apply_effects_def apply_effect_def eval_nat_numeral)

text \<open>
  A variable-size encoder whose \<open>write\<close> detaches the buffer: \<open>variableSize\<close> of a two-byte
  value is 2, and \<open>encode\<close> returns an array of length 0.
\<close>

theorem encode_variableSize_counterexample:
  "fixedSize detaching_bytes_encoder = None
   \<and> variableSize detaching_bytes_encoder = Some bytes_variableSize
   \<and> bytes_variableSize [4, 5] = Inr 2
   \<and> Encoder.encode (props (createEncoder engine detaching_bytes_encoder)) [4, 5] = Inr []
   \<and> int (length ([] :: Uint8Array)) \<noteq> 2"
  by (simp add: example_defs encode_createEncoder getEncodedSize_def
      new_Uint8Array_def apply_effects_def apply_effect_def eval_nat_numeral)

text \<open>
  C1. Round trip. Take a codec built by \<open>createCodec\<close> and a value \<open>v\<close> on which \<open>write\<close> and
  \<open>read\<close> are consistent: \<open>n\<close> being the size the descriptor declares for \<open>v\<close> (its
  \<open>fixedSize\<close>, or \<open>variableSize(v)\<close> when \<open>fixedSize\<close> is \<open>null\<close>), \<open>write\<close> fills the fresh
  buffer of \<open>n\<close> zero bytes, and \<open>read\<close> at offset 0 on the filled buffer returns a value
  equivalent to \<open>v\<close>. Then, in an engine that allocates \<open>n\<close> bytes, \<open>encode\<close> returns on \<open>v\<close>
  and \<open>decode\<close> of the result (offset omitted or 0) returns a value equivalent to \<open>v\<close>. The
  equivalence is any relation between encoded and decoded values.
\<close>

theorem createCodec_round_trip:
  assumes "fixedSize codec = Some n
           \<or> (fixedSize codec = None \<and> variableSize codec = Some size_of \<and> size_of v = Inr n)"
    and "0 \<le> n" and "n \<le> 2 ^ 53 - 1" and "allocates n"
    and "write codec v (replicate (nat n) 0) 0 = Inr (effects, nextOffset)"
    and "CodecInput.read codec (apply_effects effects (replicate (nat n) 0)) 0
           = Inr (x, nextOffset')"
    and "equivalent v x"
  shows "\<exists>bytes y. Codec.encode (props (createCodec allocates codec)) v = Inr bytes
           \<and> Codec.decode (props (createCodec allocates codec)) bytes None = Inr y
           \<and> Codec.decode (props (createCodec allocates codec)) bytes (Some 0) = Inr y
           \<and> equivalent v y"
proof -
  let ?bytes = "apply_effects effects (replicate (nat n) 0)"
  from assms(1) have sz: "getEncodedSize v codec = Inr n"
    by (auto simp add: getEncodedSize_def)
  have "Codec.encode (props (createCodec allocates codec)) v = Inr ?bytes"
    unfolding encode_createCodec encode_Inr_iff using sz assms(2-5) by blast
  moreover have "Codec.decode (props (createCodec allocates codec)) ?bytes None = Inr x"
    "Codec.decode (props (createCodec allocates codec)) ?bytes (Some 0) = Inr x"
    using assms(6) by (simp_all add: decode_createCodec)
  ultimately show ?thesis using assms(7) by blast
qed

theorem createCodec_round_trip_witness:
  "fixedSize u8_codec = Some 1
   \<and> engine 1
   \<and> write u8_codec 7 (replicate (nat 1) 0) 0 = Inr ([Store 0 7], 1)
   \<and> CodecInput.read u8_codec (apply_effects [Store 0 7] (replicate (nat 1) 0)) 0 = Inr (7, 1)
   \<and> 7 = uint (7 :: 8 word)
   \<and> (\<exists>bytes y. Codec.encode (props (createCodec engine u8_codec)) 7 = Inr bytes
           \<and> Codec.decode (props (createCodec engine u8_codec)) bytes None = Inr y
           \<and> Codec.decode (props (createCodec engine u8_codec)) bytes (Some 0) = Inr y
           \<and> 7 = uint y)
   \<and> fixedSize bytes_codec = None
   \<and> variableSize bytes_codec = Some bytes_variableSize
   \<and> bytes_variableSize [4, 5] = Inr 2
   \<and> engine 2
   \<and> write bytes_codec [4, 5] (replicate (nat 2) 0) 0 = Inr ([Store 0 4, Store 1 5], 2)
   \<and> CodecInput.read bytes_codec (apply_effects [Store 0 4, Store 1 5] (replicate (nat 2) 0)) 0
       = Inr ([4, 5], 2)
   \<and> (\<exists>bytes y. Codec.encode (props (createCodec engine bytes_codec)) [4, 5] = Inr bytes
           \<and> Codec.decode (props (createCodec engine bytes_codec)) bytes None = Inr y
           \<and> Codec.decode (props (createCodec engine bytes_codec)) bytes (Some 0) = Inr y
           \<and> [4, 5] = y)"
proof -
  have f1: "fixedSize u8_codec = Some 1" by (simp add: u8_codec_def)
  have f2: "engine 1" by (simp add: engine_def)
  have f3: "write u8_codec 7 (replicate (nat 1) 0) 0 = Inr ([Store 0 7], 1)"
    by (simp add: u8_codec_def u8_write_def)
  have f4: "CodecInput.read u8_codec (apply_effects [Store 0 7] (replicate (nat 1) 0)) 0
              = Inr (7, 1)"
    by (simp add: u8_codec_def u8_read_def apply_effects_def apply_effect_def
        assertByteArrayHasEnoughBytesForCodec_def number_sub_exact)
  have f5: "7 = uint (7 :: 8 word)" by simp
  have f6: "(0::int) \<le> 1" and f7: "(1::int) \<le> 2 ^ 53 - 1" by simp_all
  have v1: "fixedSize bytes_codec = None" by (simp add: bytes_codec_def)
  have v2: "variableSize bytes_codec = Some bytes_variableSize" by (simp add: bytes_codec_def)
  have v3: "bytes_variableSize [4, 5] = Inr 2" by (simp add: bytes_variableSize_def)
  have v4: "engine 2" by (simp add: engine_def)
  have v5: "write bytes_codec [4, 5] (replicate (nat 2) 0) 0 = Inr ([Store 0 4, Store 1 5], 2)"
    by (simp add: bytes_codec_def bytes_write_def)
  have v6: "CodecInput.read bytes_codec
              (apply_effects [Store 0 4, Store 1 5] (replicate (nat 2) 0)) 0 = Inr ([4, 5], 2)"
    by (simp add: bytes_codec_def bytes_read_def apply_effects_def apply_effect_def
        eval_nat_numeral)
  have v7: "(0::int) \<le> 2" and v8: "(2::int) \<le> 2 ^ 53 - 1" by simp_all
  have v9: "[4, 5] = ([4, 5] :: 8 word list)" by simp
  note fixed = createCodec_round_trip
    [where equivalent = "\<lambda>v x. v = uint x" and size_of = Inr and codec = u8_codec
      and n = 1 and allocates = engine and v = 7,
      OF disjI1 [OF f1] f6 f7 f2 f3 f4 f5]
  note variable = createCodec_round_trip
    [where equivalent = "(=)" and codec = bytes_codec and n = 2 and allocates = engine
      and v = "[4, 5]" and size_of = bytes_variableSize,
      OF disjI2 [OF conjI [OF v1 conjI [OF v2 v3]]] v7 v8 v4 v5 v6 v9]
  show ?thesis
    by (intro conjI) (rule f1 f2 f3 f4 f5 fixed v1 v2 v3 v4 v5 v6 variable)+
qed

text \<open>
  C6. \<open>decode(bytes, offset)\<close> of a decoder built by \<open>createDecoder\<close>, or of a codec built by
  \<open>createCodec\<close>, is the first component of \<open>read(bytes, offset)\<close>, the next offset being
  dropped; an omitted offset is 0; and \<open>decode\<close> raises an error exactly when \<open>read\<close> raises
  that error.
\<close>

theorem decode_is_read_value:
  "Decoder.decode (props (createDecoder decoder)) bytes offset
     = map_sum id fst (DecoderInput.read decoder bytes (case offset of None \<Rightarrow> 0 | Some off \<Rightarrow> off))
   \<and> Codec.decode (props (createCodec allocates codec)) bytes offset
     = map_sum id fst (CodecInput.read codec bytes (case offset of None \<Rightarrow> 0 | Some off \<Rightarrow> off))
   \<and> Decoder.decode (props (createDecoder decoder)) bytes None
     = Decoder.decode (props (createDecoder decoder)) bytes (Some 0)
   \<and> Codec.decode (props (createCodec allocates codec)) bytes None
     = Codec.decode (props (createCodec allocates codec)) bytes (Some 0)
   \<and> (Decoder.decode (props (createDecoder decoder)) bytes (Some off) = Inl e)
     = (DecoderInput.read decoder bytes off = Inl e)
   \<and> (Codec.decode (props (createCodec allocates codec)) bytes (Some off) = Inl e)
     = (CodecInput.read codec bytes off = Inl e)"
  by (auto simp add: decode_createDecoder decode_createCodec split: sum.splits)

text \<open>
  C7. The objects the three factories return expose \<open>fixedSize\<close> of the input unchanged;
  when it is \<open>null\<close> they expose \<open>maxSize\<close> (and, for encoders and codecs,
  \<open>variableSize\<close>) of the input unchanged, and when it is a number they expose no other size
  field; \<open>write\<close> and \<open>read\<close> are the functions supplied.
\<close>

theorem factories_pass_fields_through:
  "fixedSize (props (createEncoder allocates encoder)) = fixedSize encoder
   \<and> maxSize (props (createEncoder allocates encoder))
       = (if fixedSize encoder = None then maxSize encoder else None)
   \<and> variableSize (props (createEncoder allocates encoder))
       = (if fixedSize encoder = None then variableSize encoder else None)
   \<and> write (props (createEncoder allocates encoder)) = write encoder
   \<and> fixedSize (props (createDecoder decoder)) = fixedSize decoder
   \<and> maxSize (props (createDecoder decoder))
       = (if fixedSize decoder = None then maxSize decoder else None)
   \<and> DecoderInput.read (props (createDecoder decoder)) = DecoderInput.read decoder
   \<and> fixedSize (props (createCodec allocates codec)) = fixedSize codec
   \<and> maxSize (props (createCodec allocates codec))
       = (if fixedSize codec = None then maxSize codec else None)
   \<and> variableSize (props (createCodec allocates codec))
       = (if fixedSize codec = None then variableSize codec else None)
   \<and> write (props (createCodec allocates codec)) = write codec
   \<and> CodecInput.read (props (createCodec allocates codec)) = CodecInput.read codec"
  by (simp add: createEncoder_def createDecoder_def createCodec_def Object_freeze_def Let_def
      split: option.splits)

text \<open>
  C8. The objects the three factories return are frozen: after any sequence of attempts to
  alter their fields the object is the one that was constructed, so its fields and the
  behaviour of its functions are the same; each attempt is refused, with a \<open>TypeError\<close> when
  it is of a raising kind and silently otherwise.
\<close>

theorem factory_objects_are_frozen:
  "fold (\<lambda>upd obj. snd (alter raising upd obj)) upds (createEncoder allocates encoder)
       = createEncoder allocates encoder
   \<and> fold (\<lambda>upd obj. snd (alter raising upd obj)) upds' (createDecoder decoder)
       = createDecoder decoder
   \<and> fold (\<lambda>upd obj. snd (alter raising upd obj)) upds'' (createCodec allocates codec)
       = createCodec allocates codec
   \<and> alter raising upd (createEncoder allocates encoder)
       = (if raising then Inl TypeError else Inr (), createEncoder allocates encoder)
   \<and> alter raising upd' (createDecoder decoder)
       = (if raising then Inl TypeError else Inr (), createDecoder decoder)
   \<and> alter raising upd'' (createCodec allocates codec)
       = (if raising then Inl TypeError else Inr (), createCodec allocates codec)"
proof -
  have "alter raising upd (createEncoder allocates encoder)
       = (if raising then Inl TypeError else Inr (), createEncoder allocates encoder)"
    "alter raising upd' (createDecoder decoder)
       = (if raising then Inl TypeError else Inr (), createDecoder decoder)"
    "alter raising upd'' (createCodec allocates codec)
       = (if raising then Inl TypeError else Inr (), createCodec allocates codec)"
    unfolding alter_def
    by (simp_all only: frozen_createEncoder frozen_createDecoder frozen_createCodec if_True)
  then show ?thesis
    by (simp only: frozen_fold_alter [OF frozen_createEncoder]
        frozen_fold_alter [OF frozen_createDecoder] frozen_fold_alter [OF frozen_createCodec]
        simp_thms)
qed

end
